theory Spec2Isabelle
  imports Complex_Main "HOL-Library.Sublist"
begin

section \<open>JavaScript values and their coercions\<close>

text \<open>
  A number is a finite one or one of \<open>NaN\<close>, \<open>Infinity\<close>, \<open>-Infinity\<close>. Arithmetic on
  finite numbers is exact here: the rounding of doubles is not modelled.
\<close>

datatype jsnum = Finite real | NaN | PosInfinity | NegInfinity

text \<open>
  The values a configuration can hold: the primitives, a function of no arguments that
  returns a fixed value whenever it is called (\<open>Fun\<close>), an ordinary object with its own
  properties (\<open>Obj\<close>; the first binding of a key is the one read), an array (\<open>Arr\<close>)
  and a boxed number (\<open>NumObj\<close>, \<open>new Number(n)\<close>).
\<close>

datatype jsval =
    Undefined
  | Null
  | Bool bool
  | Num jsnum
  | Str string
  | Fun jsval
  | Obj "(string \<times> jsval) list"
  | Arr "jsval list"
  | NumObj jsnum

datatype prim = PUndefined | PNull | PBool bool | PNum jsnum | PStr string

datatype error = TypeError

datatype hint = HintNumber | HintString

text \<open>
  What the host does with text is not part of this repository: the text of a number
  (\<open>String(n)\<close>), the number a string stands for (\<open>Number(s)\<close>), \<open>parseFloat(s)\<close>, and
  the source text of a function. They are parameters of the model.
\<close>

record host =
  numstr :: "jsnum \<Rightarrow> string"
  strnum :: "string \<Rightarrow> jsnum"
  parseFloat :: "string \<Rightarrow> jsnum"
  funstr :: "jsval \<Rightarrow> string"

fun as_prim :: "jsval \<Rightarrow> prim option" where
  "as_prim Undefined = Some PUndefined"
| "as_prim Null = Some PNull"
| "as_prim (Bool b) = Some (PBool b)"
| "as_prim (Num n) = Some (PNum n)"
| "as_prim (Str s) = Some (PStr s)"
| "as_prim _ = None"

text \<open>\<open>ToString\<close> and \<open>ToNumber\<close> of a primitive.\<close>

fun prim_str :: "host \<Rightarrow> prim \<Rightarrow> string" where
  "prim_str h PUndefined = ''undefined''"
| "prim_str h PNull = ''null''"
| "prim_str h (PBool b) = (if b then ''true'' else ''false'')"
| "prim_str h (PNum n) = numstr h n"
| "prim_str h (PStr s) = s"

fun prim_num :: "host \<Rightarrow> prim \<Rightarrow> jsnum" where
  "prim_num h PUndefined = NaN"
| "prim_num h PNull = Finite 0"
| "prim_num h (PBool b) = Finite (if b then 1 else 0)"
| "prim_num h (PNum n) = n"
| "prim_num h (PStr s) = strnum h s"

text \<open>
  Calling the method \<open>name\<close> (\<open>valueOf\<close> or \<open>toString\<close>) of an ordinary object: an own
  property that is a function is called, an own property that is no function cannot be
  called (\<open>None\<close>), and without an own property the method of \<open>Object.prototype\<close> runs,
  which returns the object itself for \<open>valueOf\<close> and the text \<open>[object Object]\<close> for
  \<open>toString\<close>.
\<close>

definition own_method :: "(string \<times> jsval) list \<Rightarrow> string \<Rightarrow> jsval option" where
  "own_method kvs name =
     (case map_of kvs name of
        Some (Fun r) \<Rightarrow> Some r
      | Some _ \<Rightarrow> None
      | None \<Rightarrow> (if name = ''valueOf'' then Some (Obj kvs) else Some (Str ''[object Object]'')))"

text \<open>
  \<open>OrdinaryToPrimitive\<close>: the methods are tried in the order the hint gives, the first
  result that is a primitive is taken, and with none a \<open>TypeError\<close> is thrown.
\<close>

fun first_prim :: "jsval option list \<Rightarrow> error + prim" where
  "first_prim [] = Inl TypeError"
| "first_prim (None # rs) = first_prim rs"
| "first_prim (Some r # rs) = (case as_prim r of Some p \<Rightarrow> Inr p | None \<Rightarrow> first_prim rs)"

definition ordinary :: "hint \<Rightarrow> (string \<times> jsval) list \<Rightarrow> error + prim" where
  "ordinary hnt kvs =
     first_prim (map (own_method kvs)
       (if hnt = HintString then [''toString'', ''valueOf''] else [''valueOf'', ''toString'']))"

text \<open>\<open>Array.prototype.join\<close> with a comma, the first failure winning.\<close>

fun join_all :: "(error + string) list \<Rightarrow> error + string" where
  "join_all [] = Inr []"
| "join_all [r] = r"
| "join_all (r # rs) =
     (case r of
        Inl e \<Rightarrow> Inl e
      | Inr s \<Rightarrow> (case join_all rs of Inl e \<Rightarrow> Inl e | Inr t \<Rightarrow> Inr (s @ '','' @ t)))"

text \<open>
  \<open>ToString\<close>. An array is the join of its elements, \<open>undefined\<close> and \<open>null\<close> giving the
  empty text.
\<close>

fun toStr :: "host \<Rightarrow> jsval \<Rightarrow> error + string" where
  "toStr h Undefined = Inr ''undefined''"
| "toStr h Null = Inr ''null''"
| "toStr h (Bool b) = Inr (if b then ''true'' else ''false'')"
| "toStr h (Num n) = Inr (numstr h n)"
| "toStr h (Str s) = Inr s"
| "toStr h (Fun r) = Inr (funstr h (Fun r))"
| "toStr h (NumObj n) = Inr (numstr h n)"
| "toStr h (Obj kvs) =
     (case ordinary HintString kvs of Inl e \<Rightarrow> Inl e | Inr p \<Rightarrow> Inr (prim_str h p))"
| "toStr h (Arr xs) =
     join_all (map (\<lambda>x. if x = Undefined \<or> x = Null then Inr [] else toStr h x) xs)"

text \<open>\<open>ToPrimitive\<close> with a hint, and \<open>ToNumber\<close>.\<close>

fun toPrimitive :: "host \<Rightarrow> hint \<Rightarrow> jsval \<Rightarrow> error + prim" where
  "toPrimitive h hnt (Obj kvs) = ordinary hnt kvs"
| "toPrimitive h hnt (Arr xs) =
     (case toStr h (Arr xs) of Inl e \<Rightarrow> Inl e | Inr s \<Rightarrow> Inr (PStr s))"
| "toPrimitive h hnt (NumObj n) =
     (if hnt = HintString then Inr (PStr (numstr h n)) else Inr (PNum n))"
| "toPrimitive h hnt (Fun r) = Inr (PStr (funstr h (Fun r)))"
| "toPrimitive h hnt Undefined = Inr PUndefined"
| "toPrimitive h hnt Null = Inr PNull"
| "toPrimitive h hnt (Bool b) = Inr (PBool b)"
| "toPrimitive h hnt (Num n) = Inr (PNum n)"
| "toPrimitive h hnt (Str s) = Inr (PStr s)"

definition toNumber :: "host \<Rightarrow> jsval \<Rightarrow> error + jsnum" where
  "toNumber h v =
     (case toPrimitive h HintNumber v of Inl e \<Rightarrow> Inl e | Inr p \<Rightarrow> Inr (prim_num h p))"

fun is_finite :: "jsnum \<Rightarrow> bool" where
  "is_finite (Finite _) = True"
| "is_finite _ = False"

section \<open>The normaliser of the header configuration\<close>

definition HEADER_TYPES :: "jsval list" where
  "HEADER_TYPES = [Str ''static'', Str ''fixed'', Str ''sticky'']"

text \<open>Property read \<open>config.key\<close>: a missing property reads as \<open>undefined\<close>.\<close>

fun get :: "jsval \<Rightarrow> string \<Rightarrow> jsval" where
  "get (Obj kvs) k = (case map_of kvs k of None \<Rightarrow> Undefined | Some v \<Rightarrow> v)"
| "get _ k = Undefined"

fun isString :: "jsval \<Rightarrow> bool" where
  "isString (Str _) = True"
| "isString _ = False"

fun isFunction :: "jsval \<Rightarrow> bool" where
  "isFunction (Fun _) = True"
| "isFunction _ = False"

fun isObject :: "jsval \<Rightarrow> bool" where
  "isObject (Fun _) = True"
| "isObject (Obj _) = True"
| "isObject (Arr _) = True"
| "isObject (NumObj _) = True"
| "isObject _ = False"

text \<open>
  underscore's \<open>_.isFinite(v)\<close> is \<open>isFinite(v) && !isNaN(parseFloat(v))\<close>: the first test
  converts \<open>v\<close> to a number, the second converts it to a string and parses that. Either
  conversion throws for an object that yields no primitive.
\<close>

definition isFinite_us :: "host \<Rightarrow> jsval \<Rightarrow> error + bool" where
  "isFinite_us h v =
     (case toNumber h v of
        Inl e \<Rightarrow> Inl e
      | Inr n \<Rightarrow>
          if \<not> is_finite n then Inr False
          else (case toStr h v of
                  Inl e \<Rightarrow> Inl e
                | Inr s \<Rightarrow> Inr (parseFloat h s \<noteq> NaN)))"

text \<open>\<open>_.result(header, 'offset')\<close>: a function stored under the key is called.\<close>

fun result :: "jsval \<Rightarrow> jsval" where
  "result (Fun r) = r"
| "result v = v"

text \<open>
  The header descriptor \<open>{type, offset}\<close>. A field that was never assigned reads as
  \<open>Undefined\<close>, as the property read does in the source.
\<close>

record header =
  type :: jsval
  offset :: jsval

text \<open>
  \<open>_normalizeHeaderConfig\<close>, in its three statements: the shape of the input, the
  default type, the default offset. When \<open>_.isFinite\<close> throws, so does the normaliser.
\<close>

definition by_shape :: "host \<Rightarrow> jsval \<Rightarrow> error + header" where
  "by_shape h config =
    (let header0 = \<lparr>type = Undefined, offset = Undefined\<rparr>
     in if isString config then Inr (header0\<lparr>type := config\<rparr>)
        else case (if isFunction config then Inr True else isFinite_us h config) of
          Inl e \<Rightarrow> Inl e
        | Inr numeric \<Rightarrow>
            if numeric then Inr (header0\<lparr>type := Str ''sticky'', offset := config\<rparr>)
            else if isObject config \<and> isString (get config ''type'')
              then Inr (header0\<lparr>type := get config ''type'', offset := get config ''offset''\<rparr>)
            else Inr header0)"

definition default_type :: "header \<Rightarrow> header" where
  "default_type hdr =
     (if type hdr \<notin> set HEADER_TYPES then hdr\<lparr>type := Str ''static''\<rparr> else hdr)"

definition default_offset :: "host \<Rightarrow> header \<Rightarrow> error + header" where
  "default_offset h hdr =
     (if type hdr = Str ''sticky''
      then case isFinite_us h (result (offset hdr)) of
             Inl e \<Rightarrow> Inl e
           | Inr finite_offset \<Rightarrow>
               if \<not> finite_offset then Inr (hdr\<lparr>offset := Num (Finite 0)\<rparr>) else Inr hdr
      else Inr hdr)"

definition normalizeHeaderConfig :: "host \<Rightarrow> jsval \<Rightarrow> error + header" where
  "normalizeHeaderConfig h config =
     (case by_shape h config of
        Inl e \<Rightarrow> Inl e
      | Inr hdr \<Rightarrow> default_offset h (default_type hdr))"

section \<open>The table state and its partial update\<close>

text \<open>
  A value stored under a state key is either \<open>undefined\<close> or some other value, which
  the update treats as opaque. An object is a finite map from property names; a property
  that is present may still hold \<open>undefined\<close>.
\<close>

datatype 'v slot = Undef | Val 'v

type_synonym 'v object = "string \<rightharpoonup> 'v slot"

definition STATE_OPTIONS :: "string list" where
  "STATE_OPTIONS = [''cols'', ''headRows'', ''bodyRows'', ''footRows'', ''events'']"

text \<open>\<open>_.pick(obj, keys)\<close> copies the listed keys that are \<open>in\<close> the object.\<close>

definition pick :: "'v object \<Rightarrow> string list \<Rightarrow> 'v object" where
  "pick obj keys = (\<lambda>k. if k \<in> set keys then obj k else None)"

text \<open>\<open>_.extend(dst, src)\<close> assigns every property of \<open>src\<close>, an undefined one too.\<close>

definition extend_us :: "'v object \<Rightarrow> 'v object \<Rightarrow> 'v object" where
  "extend_us dst src = (\<lambda>k. case src k of None \<Rightarrow> dst k | Some v \<Rightarrow> Some v)"

text \<open>\<open>isSet\<close> of the source: \<open>!_.isUndefined(state[key])\<close>.\<close>

definition isSet :: "'v object \<Rightarrow> string \<Rightarrow> bool" where
  "isSet state key = (case state key of Some (Val _) \<Rightarrow> True | _ \<Rightarrow> False)"

text \<open>
  What \<open>set\<close> hands to the list view: \<open>items\<close> is the view over the stored body rows
  (here the stored value itself), \<open>events\<close> the mapping of the update; each is present
  only when the branch that assigns it ran.
\<close>

record 'v listState =
  items :: "'v slot option"
  events :: "'v slot option"

text \<open>The state of the table as the constructor leaves it, given the empty values.\<close>

definition initial_state :: "'v \<Rightarrow> 'v \<Rightarrow> 'v object" where
  "initial_state empty_list empty_object =
     [''cols'' \<mapsto> Val empty_list, ''headRows'' \<mapsto> Val empty_list,
      ''bodyRows'' \<mapsto> Val empty_list, ''footRows'' \<mapsto> Val empty_list,
      ''events'' \<mapsto> Val empty_object]"

text \<open>
  \<open>set(state)\<close> on the stored state \<open>this._state\<close>: the new stored state and the \<open>listState\<close>
  passed on to the list view. The redraws of the column group, header and footer read the
  state and do not change it.
\<close>

definition set_state :: "'v object \<Rightarrow> 'v object \<Rightarrow> 'v object \<times> 'v listState" where
  "set_state state this_state =
    (let this_state' = extend_us this_state (pick state STATE_OPTIONS);
         listState0 = \<lparr>items = None, events = None\<rparr>;
         listState1 =
           (if isSet state ''bodyRows'' then listState0\<lparr>items := this_state' ''bodyRows''\<rparr>
            else listState0);
         listState2 =
           (if isSet state ''events'' then listState1\<lparr>events := state ''events''\<rparr>
            else listState1)
     in (this_state', listState2))"

section \<open>The sticky header\<close>

text \<open>Addition, negation, comparison, \<open>Math.max\<close> and \<open>Math.min\<close> of numbers.\<close>

fun num_add :: "jsnum \<Rightarrow> jsnum \<Rightarrow> jsnum" where
  "num_add (Finite a) (Finite b) = Finite (a + b)"
| "num_add NaN _ = NaN"
| "num_add _ NaN = NaN"
| "num_add PosInfinity NegInfinity = NaN"
| "num_add NegInfinity PosInfinity = NaN"
| "num_add PosInfinity _ = PosInfinity"
| "num_add _ PosInfinity = PosInfinity"
| "num_add NegInfinity _ = NegInfinity"
| "num_add _ NegInfinity = NegInfinity"

fun num_neg :: "jsnum \<Rightarrow> jsnum" where
  "num_neg (Finite a) = Finite (- a)"
| "num_neg NaN = NaN"
| "num_neg PosInfinity = NegInfinity"
| "num_neg NegInfinity = PosInfinity"

definition num_sub :: "jsnum \<Rightarrow> jsnum \<Rightarrow> jsnum" where
  "num_sub a b = num_add a (num_neg b)"

fun num_less :: "jsnum \<Rightarrow> jsnum \<Rightarrow> bool" where
  "num_less (Finite a) (Finite b) = (a < b)"
| "num_less NaN _ = False"
| "num_less _ NaN = False"
| "num_less _ NegInfinity = False"
| "num_less PosInfinity _ = False"
| "num_less NegInfinity _ = True"
| "num_less _ PosInfinity = True"

definition num_max :: "jsnum \<Rightarrow> jsnum \<Rightarrow> jsnum" where
  "num_max a b = (if a = NaN \<or> b = NaN then NaN else if num_less a b then b else a)"

definition num_min :: "jsnum \<Rightarrow> jsnum \<Rightarrow> jsnum" where
  "num_min a b = (if a = NaN \<or> b = NaN then NaN else if num_less b a then b else a)"

text \<open>
  \<open>topVP + offset\<close> with a number on the left: the right operand is made a primitive;
  if that is a string the result is the text of the left followed by it, otherwise the sum
  of the two numbers.
\<close>

datatype added = Text string | Number jsnum

definition plus_js :: "host \<Rightarrow> real \<Rightarrow> jsval \<Rightarrow> error + added" where
  "plus_js h a v =
     (case toPrimitive h HintNumber v of
        Inl e \<Rightarrow> Inl e
      | Inr (PStr s) \<Rightarrow> Inr (Text (numstr h (Finite a) @ s))
      | Inr p \<Rightarrow> Inr (Number (num_add (Finite a) (prim_num h p))))"

text \<open>The number an operand of \<open>-\<close> or of \<open><\<close> against a number stands for.\<close>

fun added_num :: "host \<Rightarrow> added \<Rightarrow> jsnum" where
  "added_num h (Text s) = strnum h s"
| "added_num h (Number n) = n"

text \<open>
  A value given to jQuery's \<open>.css\<close>: the empty string (which removes the property),
  another string, or a number, to which jQuery adds \<open>px\<close>.
\<close>

datatype cssv = Unset | Kw string | Px jsnum

fun added_css :: "added \<Rightarrow> cssv" where
  "added_css (Text s) = Kw s"
| "added_css (Number n) = Px n"

datatype elem = StickyHeaderFiller | StickyHeader | Table

type_synonym style = "(string \<times> cssv) list"

record size =
  width :: real
  height :: real

text \<open>
  What the positioner owns: the inline styles of the three elements, the \<open>.css\<close> calls
  made so far in order, and \<open>viewportSize\<close>.
\<close>

record sticky =
  styles :: "elem \<Rightarrow> string \<Rightarrow> cssv"
  calls :: "(elem \<times> style) list"
  viewportSize :: size

text \<open>\<open>.css(properties)\<close>: every property is set but one whose value is \<open>NaN\<close>, which jQuery skips.\<close>

definition css :: "elem \<Rightarrow> style \<Rightarrow> sticky \<Rightarrow> sticky" where
  "css e kvs st =
     st\<lparr>styles := (styles st)
            (e := fold (\<lambda>(k, v) f. if v = Px NaN then f else f(k := v)) kvs (styles st e)),
        calls := calls st @ [(e, kvs)]\<rparr>"

text \<open>The state \<open>_hookUpStickyHeader\<close> starts from, over the styles the template left.\<close>

definition hookUp :: "(elem \<Rightarrow> string \<Rightarrow> cssv) \<Rightarrow> sticky" where
  "hookUp s = \<lparr>styles = s, calls = [], viewportSize = \<lparr>width = 0, height = 0\<rparr>\<rparr>"

text \<open>
  The layout read during one tick: visibility of the root element, the outer box of the
  viewport, the rectangle of the table container, the height of the header, the width of
  the container once header and table are laid out at \<open>auto\<close>, and the height of the
  table. They are finite numbers.
\<close>

record box = size +
  top :: real
  left :: real

record samples =
  visible :: bool
  outer :: box
  rectContainer :: box
  stickyHeader_height :: real
  tableContainer_width :: real
  table_height :: real

text \<open>\<open>_.result(header, 'offset', 0)\<close>, read anew on every tick.\<close>

definition resolve_offset :: "header \<Rightarrow> jsval" where
  "resolve_offset hdr =
     result (if offset hdr = Undefined then Num (Finite 0) else offset hdr)"

text \<open>
  \<open>adjustStickyHeader\<close>, the handler of \<open>didChangeBound\<close> and \<open>didRedraw\<close>.
  \<open>isWindow\<close> is fixed when the header is hooked up. The tick returns the state it
  leaves, or throws and leaves the state reached by then.
\<close>

definition adjustStickyHeader ::
  "host \<Rightarrow> bool \<Rightarrow> header \<Rightarrow> samples \<Rightarrow> sticky \<Rightarrow> (error \<times> sticky) + sticky" where
  "adjustStickyHeader h isWindow hdr smp st =
    (if \<not> visible smp then Inr st
     else
       let metricsVP = outer smp;
           topVP = top metricsVP;
           offset = resolve_offset hdr;
           topCur = top (rectContainer smp)
       in
         if isWindow then
           case plus_js h topVP offset of
             Inl e \<Rightarrow> Inl (e, st)
           | Inr bound \<Rightarrow>
           let sticky = num_less (Finite topCur) (added_num h bound);
               st1 = css StickyHeaderFiller
                       [(''display'', if sticky then Kw ''block'' else Kw ''none''),
                        (''height'',
                           if sticky then Px (Finite (stickyHeader_height smp)) else Unset)] st;
               style = [(''position'', if sticky then Kw ''fixed'' else Kw ''static''),
                        (''top'', if sticky then added_css bound else Unset),
                        (''left'',
                           if sticky then Px (Finite (left (rectContainer smp))) else Unset)];
               deltaWidth = \<bar>width metricsVP - width (viewportSize st1)\<bar>;
               deltaHeight = \<bar>height metricsVP - height (viewportSize st1)\<bar>;
               resize = (deltaWidth \<ge> 1 \<or> deltaHeight \<ge> 1)
           in
             if resize then
               let st2 = st1\<lparr>viewportSize :=
                               \<lparr>width = width metricsVP, height = height metricsVP\<rparr>\<rparr>;
                   st3 = css StickyHeader [(''width'', Kw ''auto'')] st2;
                   st4 = css Table [(''width'', Kw ''auto'')] st3;
                   w = tableContainer_width smp;
                   style' = style @ [(''width'', Px (Finite w))];
                   st5 = css Table [(''width'', Px (Finite w))] st4
               in Inr (css StickyHeader style' st5)
             else Inr (css StickyHeader style st1)
         else
           let st1 = css StickyHeaderFiller [(''display'', Kw ''none'')] st
           in case plus_js h topVP offset of
                Inl e \<Rightarrow> Inl (e, st1)
              | Inr bound \<Rightarrow>
                  Inr (css StickyHeader
                    [(''position'', Kw ''relative''),
                     (''top'',
                        Px (num_min
                              (num_max (num_sub (added_num h bound) (Finite topCur)) (Finite 0))
                              (Finite (table_height smp))))] st1))"

text \<open>The state a tick leaves, thrown or not.\<close>

fun state_after :: "(error \<times> sticky) + sticky \<Rightarrow> sticky" where
  "state_after (Inl (e, st)) = st"
| "state_after (Inr st) = st"

text \<open>The two states of the header, read off the styles.\<close>

definition ENGAGED :: "sticky \<Rightarrow> bool" where
  "ENGAGED st \<longleftrightarrow>
     styles st StickyHeaderFiller ''display'' = Kw ''block'' \<and>
     styles st StickyHeader ''position'' = Kw ''fixed''"

definition DISENGAGED :: "sticky \<Rightarrow> bool" where
  "DISENGAGED st \<longleftrightarrow>
     styles st StickyHeaderFiller ''display'' = Kw ''none'' \<and>
     styles st StickyHeader ''position'' = Kw ''static''"

text \<open>The spec's \<open>clamp(x, lo, hi)\<close>: \<open>x\<close> brought into the interval from \<open>lo\<close> to \<open>hi\<close>.\<close>

definition clamp_spec :: "real \<Rightarrow> real \<Rightarrow> real \<Rightarrow> real" where
  "clamp_spec x lo hi = (if x < lo then lo else if hi < x then hi else x)"

text \<open>The \<open>.css\<close> calls of a tick: those made after the ones already recorded.\<close>

definition calls_of_tick :: "sticky \<Rightarrow> sticky \<Rightarrow> (elem \<times> style) list" where
  "calls_of_tick st st' = drop (length (calls st)) (calls st')"

definition writes :: "elem \<Rightarrow> string \<Rightarrow> (elem \<times> style) list \<Rightarrow> bool" where
  "writes e k cs = (\<exists>(e', kvs) \<in> set cs. e' = e \<and> k \<in> fst ` set kvs)"

text \<open>The test \<open>resize\<close> of the tick, against the size stored before it.\<close>

definition resize :: "samples \<Rightarrow> sticky \<Rightarrow> bool" where
  "resize smp st \<longleftrightarrow>
     \<bar>width (outer smp) - width (viewportSize st)\<bar> \<ge> 1 \<or>
     \<bar>height (outer smp) - height (viewportSize st)\<bar> \<ge> 1"

section \<open>The fixed header\<close>

text \<open>
  The \<open>didRedraw\<close> handler of \<open>_renderFixed\<close> reads three widths of the layout, which are
  whole and not negative, and sets two widths. jQuery's \<open>.width(value)\<close> sets a negative
  value as 0.
\<close>

record fixed_samples =
  viewport_clientWidth :: nat
  el_clientWidth :: nat
  table_offsetWidth :: nat

record fixed_widths =
  el_width :: "int option"
  fixed_header_width :: "int option"

definition width_set :: "int \<Rightarrow> int" where
  "width_set v = max 0 v"

definition didRedraw_fixed :: "fixed_samples \<Rightarrow> fixed_widths \<Rightarrow> fixed_widths" where
  "didRedraw_fixed smp ws =
    (let widthViewport = int (viewport_clientWidth smp);
         widthContainer = int (el_clientWidth smp);
         widthScrollbar = widthContainer - widthViewport;
         widthTable = int (table_offsetWidth smp)
     in ws\<lparr>el_width := Some (width_set (widthTable + widthScrollbar)),
           fixed_header_width := Some (width_set widthTable)\<rparr>)"

text \<open>A run of redraws, each with the layout it finds.\<close>

definition redraws :: "fixed_samples list \<Rightarrow> fixed_widths \<Rightarrow> fixed_widths" where
  "redraws smps ws = fold didRedraw_fixed smps ws"

section \<open>From a rendered element to its row index\<close>

text \<open>
  The document is a tree of elements; a node is addressed by the positions of the children
  taken from the root, so the last position of a path is the number of element siblings
  before the node, which is what jQuery's \<open>.index()\<close> returns.
\<close>

datatype dom = Elem string "dom list"

fun node_at :: "dom \<Rightarrow> nat list \<Rightarrow> dom option" where
  "node_at d [] = Some d"
| "node_at (Elem t cs) (i # p) = (if i < length cs then node_at (cs ! i) p else None)"

fun tag :: "dom \<Rightarrow> string" where
  "tag (Elem t cs) = t"

text \<open>The tags met below a node along a path, the node itself left out.\<close>

fun tags_below :: "dom \<Rightarrow> nat list \<Rightarrow> string list" where
  "tags_below d [] = []"
| "tags_below (Elem t cs) (i # p) =
     (if i < length cs then tag (cs ! i) # tags_below (cs ! i) p else [])"

text \<open>
  The second argument of \<open>closest\<close> is a DOM element or, as in \<open>indexOfElement\<close>, a jQuery
  object holding elements.
\<close>

datatype closest_context = ContextElement "nat list" | ContextJQuery "nat list list"

text \<open>
  \<open>$(node).closest(sel, context)\<close>: from the node upwards, the first element with the tag.
  jQuery ends the walk at a node that is identical (\<open>===\<close>) to the context, which only
  a context that is itself a DOM element can be.
\<close>

function closest :: "string \<Rightarrow> closest_context \<Rightarrow> dom \<Rightarrow> nat list \<Rightarrow> nat list option" where
  "closest sel ctx doc cur =
     (if ctx = ContextElement cur then None
      else case node_at doc cur of
        None \<Rightarrow> None
      | Some n \<Rightarrow>
          if tag n = sel then Some cur
          else if cur = [] then None
          else closest sel ctx doc (butlast cur))"
  by pat_completeness auto
termination
  by (relation "measure (\<lambda>(sel, ctx, doc, cur). length cur)") auto

declare closest.simps [simp del]

text \<open>\<open>.index()\<close> of an element: its position among its siblings.\<close>

definition index :: "nat list \<Rightarrow> int" where
  "index p = (if p = [] then 0 else int (last p))"

text \<open>
  The list view as \<open>indexOfElement\<close> sees it: its root element \<open>$el\<close>, its
  \<open>$container\<close> and \<open>indexFirst\<close>.
\<close>

record listView =
  el :: "nat list"
  container :: "nat list"
  indexFirst :: int

text \<open>
  \<open>listView.$(node)\<close> is \<open>$el.find(node)\<close>: the node when it is in the document and
  strictly below \<open>$el\<close>, nothing otherwise.
\<close>

definition find_in :: "dom \<Rightarrow> nat list \<Rightarrow> nat list \<Rightarrow> nat list option" where
  "find_in doc base p =
     (if node_at doc p \<noteq> None \<and> strict_prefix base p then Some p else None)"

definition indexOfElement :: "dom \<Rightarrow> listView \<Rightarrow> nat list \<Rightarrow> int option" where
  "indexOfElement doc lv node =
     (let elTr = (case find_in doc (el lv) node of
                    None \<Rightarrow> None
                  | Some p \<Rightarrow> closest ''tr'' (ContextJQuery [container lv]) doc p)
      in case elTr of
           Some tr \<Rightarrow> Some (index tr + indexFirst lv - 1)
         | None \<Rightarrow> None)"

section \<open>Concrete inputs\<close>

text \<open>
  A host for the examples. It agrees with JavaScript on the whole numbers and on the
  strings of decimal digits, which is all the examples use.
\<close>

definition is_digit :: "char \<Rightarrow> bool" where
  "is_digit c \<longleftrightarrow> c \<in> set ''0123456789''"

definition digit_of :: "char \<Rightarrow> nat" where
  "digit_of c = length (takeWhile (\<lambda>d. d \<noteq> c) ''0123456789'')"

definition digits_value :: "string \<Rightarrow> nat" where
  "digits_value s = foldl (\<lambda>a c. 10 * a + digit_of c) 0 s"

function show_nat :: "nat \<Rightarrow> string" where
  "show_nat n =
     (if n < 10 then [''0123456789'' ! n]
      else show_nat (n div 10) @ [''0123456789'' ! (n mod 10)])"
  by pat_completeness auto
termination
  by (relation "measure id") auto

declare show_nat.simps [simp del]

definition decimal_numstr :: "jsnum \<Rightarrow> string" where
  "decimal_numstr n =
     (case n of
        Finite r \<Rightarrow>
          if r = of_int \<lfloor>r\<rfloor>
          then (if 0 \<le> r then show_nat (nat \<lfloor>r\<rfloor>) else CHR ''-'' # show_nat (nat \<lfloor>- r\<rfloor>))
          else ''?''
      | NaN \<Rightarrow> ''NaN''
      | PosInfinity \<Rightarrow> ''Infinity''
      | NegInfinity \<Rightarrow> ''-Infinity'')"

definition decimal_strnum :: "string \<Rightarrow> jsnum" where
  "decimal_strnum s =
     (if s = [] then Finite 0
      else if list_all is_digit s then Finite (of_nat (digits_value s))
      else NaN)"

definition decimal_parseFloat :: "string \<Rightarrow> jsnum" where
  "decimal_parseFloat s =
     (if takeWhile is_digit s = [] then NaN
      else Finite (of_nat (digits_value (takeWhile is_digit s))))"

definition decimal_host :: host where
  "decimal_host =
     \<lparr>numstr = decimal_numstr, strnum = decimal_strnum, parseFloat = decimal_parseFloat,
      funstr = (\<lambda>f. ''function () {}'')\<rparr>"

definition no_styles :: "elem \<Rightarrow> string \<Rightarrow> cssv" where
  "no_styles e k = Unset"

text \<open>
  A visible tick: the viewport of the given size with its top at \<open>vtop\<close>, the container
  with its top at \<open>ctop\<close>, a header 30 high, a container 800 wide, a table 1970 high.
\<close>

definition tick_at :: "bool \<Rightarrow> real \<Rightarrow> real \<Rightarrow> real \<Rightarrow> real \<Rightarrow> samples" where
  "tick_at vis ctop vtop vp_width vp_height =
     \<lparr>visible = vis,
      outer = \<lparr>width = vp_width, height = vp_height, top = vtop, left = 0\<rparr>,
      rectContainer = \<lparr>width = 800, height = 2000, top = ctop, left = 8\<rparr>,
      stickyHeader_height = 30,
      tableContainer_width = 800,
      table_height = 1970\<rparr>"

text \<open>The header configurations \<open>10\<close> and \<open>{type: 'sticky', offset: '12'}\<close>.\<close>

definition offset_10 :: header where
  "offset_10 = \<lparr>type = Str ''sticky'', offset = Num (Finite 10)\<rparr>"

definition string_offset :: jsval where
  "string_offset = Obj [(''type'', Str ''sticky''), (''offset'', Str ''12'')]"

definition after_first_tick :: sticky where
  "after_first_tick =
     state_after (adjustStickyHeader decimal_host True offset_10
                    (tick_at True 4 0 1024 768) (hookUp no_styles))"

definition scrollbar_appears :: fixed_samples where
  "scrollbar_appears =
     \<lparr>viewport_clientWidth = 985, el_clientWidth = 1000, table_offsetWidth = 800\<rparr>"

definition inline_root :: fixed_samples where
  "inline_root =
     \<lparr>viewport_clientWidth = 985, el_clientWidth = 0, table_offsetWidth = 800\<rparr>"

definition no_widths :: fixed_widths where
  "no_widths = \<lparr>el_width = None, fixed_header_width = None\<rparr>"

text \<open>
  A page: the grid, whose table has a header row and, in the container, a filler row and
  two materialised rows, the first of them holding a table of its own; beside the grid
  another table and a paragraph.
\<close>

definition page :: dom where
  "page =
     Elem ''body''
       [Elem ''div''
          [Elem ''table''
             [Elem ''thead'' [Elem ''tr'' [Elem ''th'' []]],
              Elem ''tbody''
                [Elem ''tr'' [],
                 Elem ''tr''
                   [Elem ''td''
                      [Elem ''span'' [],
                       Elem ''table'' [Elem ''tbody'' [Elem ''tr'' [Elem ''td'' []]]]]],
                 Elem ''tr'' [Elem ''td'' []]]]],
        Elem ''table'' [Elem ''tbody'' [Elem ''tr'' [Elem ''td'' []]]],
        Elem ''p'' []]"

definition page_list :: listView where
  "page_list = \<lparr>el = [0], container = [0, 0, 1], indexFirst = 40\<rparr>"

definition fresh_state :: "nat list object" where
  "fresh_state = initial_state [] []"

section \<open>What the normaliser does\<close>

lemma in_HEADER_TYPES:
  "v \<in> set HEADER_TYPES \<longleftrightarrow> v = Str ''static'' \<or> v = Str ''fixed'' \<or> v = Str ''sticky''"
  by (auto simp: HEADER_TYPES_def)

lemma decimal_reads:
  "numstr decimal_host (Finite 5) = ''5''"
  "strnum decimal_host ''5'' = Finite 5"
  "parseFloat decimal_host ''5'' = Finite 5"
  "strnum decimal_host ''12'' = Finite 12"
  "parseFloat decimal_host ''12'' = Finite 12"
  "strnum decimal_host ''512'' = Finite 512"
  "strnum decimal_host ''[object Object]'' = NaN"
  by (simp_all add: decimal_host_def decimal_numstr_def decimal_strnum_def decimal_parseFloat_def
      is_digit_def digits_value_def digit_of_def show_nat.simps)

lemma normalise_10: "normalizeHeaderConfig decimal_host (Num (Finite 10)) = Inr offset_10"
  by (simp add: normalizeHeaderConfig_def by_shape_def default_type_def default_offset_def
      isFinite_us_def toNumber_def in_HEADER_TYPES offset_10_def
      decimal_host_def decimal_numstr_def decimal_parseFloat_def
      is_digit_def digits_value_def digit_of_def show_nat.simps)

lemma type_valid:
  "normalizeHeaderConfig h config = Inr hdr \<Longrightarrow> type hdr \<in> set HEADER_TYPES"
  by (auto simp: normalizeHeaderConfig_def default_type_def default_offset_def in_HEADER_TYPES
      split: sum.splits if_splits)

text \<open>
  A function is normalised to the type \<open>sticky\<close>; when it returns \<open>NaN\<close> the offset
  becomes 0.
\<close>

lemma function_offset_defaults:
  "normalizeHeaderConfig h (Fun (Num NaN)) = Inr \<lparr>type = Str ''sticky'', offset = Num (Finite 0)\<rparr>"
  by (simp add: normalizeHeaderConfig_def by_shape_def default_type_def default_offset_def
      isFinite_us_def toNumber_def in_HEADER_TYPES)

text \<open>
  C4. An array holding the number 5 is no string, no number, no function, and has no
  \<open>type\<close>; yet it is normalised to the type \<open>sticky\<close>, since \<open>_.isFinite\<close> converts it to
  the text \<open>5\<close> and that to a number. So is an object whose \<open>toString\<close> returns the text
  \<open>5\<close>. An object whose \<open>toString\<close> is the number 5 makes the normaliser throw. This
  holds on every host that writes 5 as \<open>5\<close> and reads \<open>5\<close> as 5.
\<close>

theorem coercing_config_is_sticky:
  assumes "numstr h (Finite 5) = ''5''" and "strnum h ''5'' = Finite 5"
      and "parseFloat h ''5'' = Finite 5"
  shows "\<not> isString (Arr [Num (Finite 5)]) \<and> \<not> isFunction (Arr [Num (Finite 5)]) \<and>
         get (Arr [Num (Finite 5)]) ''type'' = Undefined \<and>
         normalizeHeaderConfig h (Arr [Num (Finite 5)]) =
           Inr \<lparr>type = Str ''sticky'', offset = Arr [Num (Finite 5)]\<rparr> \<and>
         normalizeHeaderConfig h (Obj [(''toString'', Fun (Str ''5''))]) =
           Inr \<lparr>type = Str ''sticky'', offset = Obj [(''toString'', Fun (Str ''5''))]\<rparr> \<and>
         normalizeHeaderConfig h (Obj [(''toString'', Num (Finite 5))]) = Inl TypeError"
  using assms
  by (simp add: normalizeHeaderConfig_def by_shape_def default_type_def default_offset_def
      isFinite_us_def toNumber_def ordinary_def own_method_def in_HEADER_TYPES)

theorem coercing_config_is_sticky_witness:
  "numstr decimal_host (Finite 5) = ''5'' \<and> strnum decimal_host ''5'' = Finite 5 \<and>
   parseFloat decimal_host ''5'' = Finite 5 \<and>
   normalizeHeaderConfig decimal_host (Arr [Num (Finite 5)]) =
     Inr \<lparr>type = Str ''sticky'', offset = Arr [Num (Finite 5)]\<rparr>"
  using coercing_config_is_sticky [of decimal_host] decimal_reads by simp

lemma string_offset_header:
  assumes "strnum h ''[object Object]'' = NaN"
      and "strnum h ''12'' = Finite 12" and "parseFloat h ''12'' = Finite 12"
  shows "normalizeHeaderConfig h string_offset =
           Inr \<lparr>type = Str ''sticky'', offset = Str ''12''\<rparr>"
  using assms
  by (simp add: normalizeHeaderConfig_def by_shape_def default_type_def default_offset_def
      isFinite_us_def toNumber_def ordinary_def own_method_def in_HEADER_TYPES string_offset_def)

text \<open>
  C5. The configuration \<open>{type: 'sticky', offset: '12'}\<close> has an offset that is a string,
  not a number; yet the normalised offset is that string and not 0, on every host that
  reads \<open>12\<close> as 12 and \<open>[object Object]\<close> as no number.
\<close>

theorem numeric_string_offset_kept:
  assumes "strnum h ''[object Object]'' = NaN"
      and "strnum h ''12'' = Finite 12" and "parseFloat h ''12'' = Finite 12"
  shows "normalizeHeaderConfig h string_offset =
           Inr \<lparr>type = Str ''sticky'', offset = Str ''12''\<rparr> \<and>
         Str ''12'' \<noteq> Num (Finite 0)"
  using string_offset_header [OF assms] by simp

theorem numeric_string_offset_kept_witness:
  "strnum decimal_host ''[object Object]'' = NaN \<and> strnum decimal_host ''12'' = Finite 12 \<and>
   parseFloat decimal_host ''12'' = Finite 12 \<and>
   normalizeHeaderConfig decimal_host string_offset =
     Inr \<lparr>type = Str ''sticky'', offset = Str ''12''\<rparr>"
  using numeric_string_offset_kept [of decimal_host] decimal_reads by simp

section \<open>The partial update of the table state\<close>

lemma set_state_absent: "state k = None \<Longrightarrow> fst (set_state state s) k = s k"
  by (simp add: set_state_def Let_def extend_us_def pick_def)

lemma set_state_foreign: "k \<notin> set STATE_OPTIONS \<Longrightarrow> fst (set_state state s) k = s k"
  by (simp add: set_state_def Let_def extend_us_def pick_def)

lemma set_state_present:
  "k \<in> set STATE_OPTIONS \<Longrightarrow> state k = Some v \<Longrightarrow> fst (set_state state s) k = Some v"
  by (simp add: set_state_def Let_def extend_us_def pick_def)

lemma set_state_twice:
  "fst (set_state [''bodyRows'' \<mapsto> b] (fst (set_state [''cols'' \<mapsto> c] s))) =
   fst (set_state [''cols'' \<mapsto> c, ''bodyRows'' \<mapsto> b] s)"
  by (rule ext) (simp add: set_state_def Let_def extend_us_def pick_def STATE_OPTIONS_def)

text \<open>
  C6. Setting the columns and then the body rows leaves the same table state as setting
  both in one call; a key absent from an update keeps its value, and a state key present in
  the update takes the value the update gives.
\<close>

theorem set_partial_update:
  "fst (set_state [''bodyRows'' \<mapsto> b] (fst (set_state [''cols'' \<mapsto> c] s))) =
     fst (set_state [''cols'' \<mapsto> c, ''bodyRows'' \<mapsto> b] s) \<and>
   (state k = None \<longrightarrow> fst (set_state state s) k = s k) \<and>
   (k \<in> set STATE_OPTIONS \<and> state k = Some v \<longrightarrow> fst (set_state state s) k = Some v)"
  by (simp add: set_state_twice set_state_absent set_state_present)

theorem set_partial_update_witness:
  "[''cols'' \<mapsto> Val [3, 5]] ''bodyRows'' = None \<and>
   fst (set_state [''cols'' \<mapsto> Val [3, 5]] fresh_state) ''bodyRows'' = Some (Val []) \<and>
   ''cols'' \<in> set STATE_OPTIONS \<and>
   fst (set_state [''cols'' \<mapsto> Val [3, 5]] fresh_state) ''cols'' = Some (Val [3, 5])"
  using set_partial_update [where state = "[''cols'' \<mapsto> Val [3, 5]]" and k = "''bodyRows''"
          and s = fresh_state]
        set_partial_update [where state = "[''cols'' \<mapsto> Val [3, 5]]" and k = "''cols''"
          and v = "Val [3, 5]" and s = fresh_state]
  by (simp add: fresh_state_def initial_state_def STATE_OPTIONS_def)

lemma isSet_undef: "state key = Some Undef \<Longrightarrow> \<not> isSet state key"
  by (simp add: isSet_def)

lemma items_of_set:
  "items (snd (set_state state s)) = (if isSet state ''bodyRows'' then state ''bodyRows'' else None)"
  by (simp add: set_state_def Let_def extend_us_def pick_def STATE_OPTIONS_def isSet_def
      split: option.splits slot.splits)

lemma events_of_set:
  "events (snd (set_state state s)) = (if isSet state ''events'' then state ''events'' else None)"
  by (simp add: set_state_def Let_def)

text \<open>
  C10. A state key that the update binds to \<open>undefined\<close> is stored as \<open>undefined\<close>,
  whatever was stored before; and for \<open>bodyRows\<close> no items, for \<open>events\<close> no events
  are handed to the list view.
\<close>

theorem set_undefined_overwrites:
  "key \<in> set STATE_OPTIONS \<Longrightarrow> state key = Some Undef \<Longrightarrow>
   fst (set_state state s) key = Some Undef \<and>
   (key = ''bodyRows'' \<longrightarrow> items (snd (set_state state s)) = None) \<and>
   (key = ''events'' \<longrightarrow> events (snd (set_state state s)) = None)"
  using set_state_present [of key state Undef s]
  by (auto simp: items_of_set events_of_set isSet_undef)

theorem set_undefined_overwrites_witness:
  "''bodyRows'' \<in> set STATE_OPTIONS \<and>
   [''bodyRows'' \<mapsto> Undef] ''bodyRows'' = Some Undef \<and>
   fresh_state ''bodyRows'' = Some (Val []) \<and>
   fst (set_state [''bodyRows'' \<mapsto> Undef] fresh_state) ''bodyRows'' = Some Undef \<and>
   items (snd (set_state [''bodyRows'' \<mapsto> Undef] fresh_state)) = None \<and>
   ''events'' \<in> set STATE_OPTIONS \<and>
   fst (set_state [''events'' \<mapsto> Undef] fresh_state) ''events'' = Some Undef \<and>
   events (snd (set_state [''events'' \<mapsto> Undef] fresh_state)) = None"
  using set_undefined_overwrites [of "''bodyRows''" "[''bodyRows'' \<mapsto> Undef]" fresh_state]
        set_undefined_overwrites [of "''events''" "[''events'' \<mapsto> Undef]" fresh_state]
  by (simp add: fresh_state_def initial_state_def STATE_OPTIONS_def)

section \<open>The sticky positioner\<close>

text \<open>A header that the normaliser returned with the type \<open>sticky\<close> never makes a tick throw.\<close>

lemma isFinite_us_primitive:
  "isFinite_us h v = Inr b \<Longrightarrow> \<exists>p. toPrimitive h HintNumber v = Inr p"
  by (auto simp: isFinite_us_def toNumber_def split: sum.splits)

lemma resolve_offset_primitive:
  assumes "default_offset h hd1 = Inr hdr" and "type hdr = Str ''sticky''"
  shows "\<exists>p. toPrimitive h HintNumber (resolve_offset hdr) = Inr p"
proof (cases "type hd1 = Str ''sticky''")
  case False
  with assms show ?thesis by (simp add: default_offset_def)
next
  case True
  then obtain f where f: "isFinite_us h (result (offset hd1)) = Inr f"
    using assms(1) by (auto simp: default_offset_def split: sum.splits)
  show ?thesis
  proof (cases f)
    case False
    then have "hdr = hd1\<lparr>offset := Num (Finite 0)\<rparr>"
      using assms(1) True f by (simp add: default_offset_def)
    then show ?thesis by (simp add: resolve_offset_def)
  next
    case t: True
    then have eq: "hdr = hd1"
      using assms(1) True f by (simp add: default_offset_def)
    show ?thesis
    proof (cases "offset hdr = Undefined")
      case True
      then show ?thesis by (simp add: resolve_offset_def)
    next
      case False
      then show ?thesis
        using isFinite_us_primitive [OF f] eq by (simp add: resolve_offset_def)
    qed
  qed
qed

lemma normalised_offset_primitive:
  assumes "normalizeHeaderConfig h config = Inr hdr" and "type hdr = Str ''sticky''"
  shows "\<exists>p. toPrimitive h HintNumber (resolve_offset hdr) = Inr p"
proof -
  from assms(1) obtain hd0 where "default_offset h (default_type hd0) = Inr hdr"
    by (auto simp: normalizeHeaderConfig_def split: sum.splits)
  then show ?thesis using assms(2) by (rule resolve_offset_primitive)
qed

lemma plus_js_returns:
  "toPrimitive h HintNumber v = Inr p \<Longrightarrow> \<exists>b. plus_js h a v = Inr b"
  by (cases p) (simp_all add: plus_js_def)

lemma normalised_offset_converts:
  assumes "normalizeHeaderConfig h config = Inr hdr" and "type hdr = Str ''sticky''"
  shows "\<not> isl (toPrimitive h HintNumber (resolve_offset hdr))"
  using normalised_offset_primitive [OF assms] by auto

lemma converted_plus_returns:
  assumes "\<not> isl (toPrimitive h HintNumber v)"
  shows "\<exists>b. plus_js h a v = Inr b"
proof -
  from assms obtain p where "toPrimitive h HintNumber v = Inr p"
    by (cases "toPrimitive h HintNumber v") auto
  then show ?thesis by (rule plus_js_returns)
qed

text \<open>
  With an offset that resolves to a finite number, the window tick engages the header
  exactly when the top of the container is less than the top of the viewport plus the
  offset, and the element tick sets the clamped top (in exact arithmetic).
\<close>

lemma plus_js_number:
  "resolve_offset hdr = Num (Finite off) \<Longrightarrow>
   plus_js h a (resolve_offset hdr) = Inr (Number (Finite (a + off)))"
  by (simp add: plus_js_def)

lemma window_numeric_offset:
  assumes "visible smp" and "resolve_offset hdr = Num (Finite off)"
  shows "(ENGAGED (state_after (adjustStickyHeader h True hdr smp st)) \<longleftrightarrow>
            top (rectContainer smp) < top (outer smp) + off) \<and>
         (DISENGAGED (state_after (adjustStickyHeader h True hdr smp st)) \<longleftrightarrow>
            \<not> top (rectContainer smp) < top (outer smp) + off) \<and>
         (ENGAGED (state_after (adjustStickyHeader h True hdr smp st)) \<longrightarrow>
            styles (state_after (adjustStickyHeader h True hdr smp st)) StickyHeader ''top'' =
              Px (Finite (top (outer smp) + off)) \<and>
            styles (state_after (adjustStickyHeader h True hdr smp st)) StickyHeader ''left'' =
              Px (Finite (left (rectContainer smp))) \<and>
            styles (state_after (adjustStickyHeader h True hdr smp st))
              StickyHeaderFiller ''height'' = Px (Finite (stickyHeader_height smp)))"
  using assms(1) plus_js_number [OF assms(2), of h "top (outer smp)"]
  by (simp add: adjustStickyHeader_def Let_def css_def ENGAGED_def DISENGAGED_def)

lemma nested_numeric_offset:
  assumes "visible smp" and "resolve_offset hdr = Num (Finite off)"
      and "0 \<le> table_height smp"
  shows "styles (state_after (adjustStickyHeader h False hdr smp st)) StickyHeader ''top'' =
           Px (Finite (clamp_spec (top (outer smp) + off - top (rectContainer smp))
                 0 (table_height smp)))"
  using assms(1,3) plus_js_number [OF assms(2), of h "top (outer smp)"]
  by (simp add: adjustStickyHeader_def Let_def css_def num_sub_def num_max_def num_min_def
      clamp_spec_def)



text \<open>
  C2. With the same configuration, the top of the viewport at 5 and the top of the
  container at 0, the element tick sets the top 512, where \<open>clamp(5 + 12 - 0, 0, 1970)\<close>
  is 17. This holds on the same hosts.
\<close>

theorem string_offset_nested_top:
  assumes "strnum h ''[object Object]'' = NaN"
      and "strnum h ''12'' = Finite 12" and "parseFloat h ''12'' = Finite 12"
      and "numstr h (Finite 5) = ''5''" and "strnum h ''512'' = Finite 512"
  shows "normalizeHeaderConfig h string_offset =
           Inr \<lparr>type = Str ''sticky'', offset = Str ''12''\<rparr> \<and>
         styles (state_after (adjustStickyHeader h False
                    \<lparr>type = Str ''sticky'', offset = Str ''12''\<rparr>
                    (tick_at True 0 5 640 480) st)) StickyHeader ''top'' = Px (Finite 512) \<and>
         clamp_spec (5 + 12 - 0) 0 (table_height (tick_at True 0 5 640 480)) = 17"
proof -
  have p: "plus_js h 5 (resolve_offset \<lparr>type = Str ''sticky'', offset = Str ''12''\<rparr>) =
             Inr (Text ''512'')"
    using assms(4) by (simp add: plus_js_def resolve_offset_def)
  have "styles (state_after (adjustStickyHeader h False
                    \<lparr>type = Str ''sticky'', offset = Str ''12''\<rparr>
                    (tick_at True 0 5 640 480) st)) StickyHeader ''top'' = Px (Finite 512)"
    using p assms(5)
    by (simp add: adjustStickyHeader_def Let_def css_def tick_at_def num_sub_def num_max_def
        num_min_def)
  moreover have "clamp_spec (5 + 12 - 0) 0 (table_height (tick_at True 0 5 640 480)) = 17"
    by (simp add: tick_at_def clamp_spec_def)
  ultimately show ?thesis
    using string_offset_header [OF assms(1,2,3)] by simp
qed

theorem string_offset_nested_top_witness:
  "strnum decimal_host ''[object Object]'' = NaN \<and>
   strnum decimal_host ''12'' = Finite 12 \<and> parseFloat decimal_host ''12'' = Finite 12 \<and>
   numstr decimal_host (Finite 5) = ''5'' \<and> strnum decimal_host ''512'' = Finite 512 \<and>
   normalizeHeaderConfig decimal_host string_offset =
     Inr \<lparr>type = Str ''sticky'', offset = Str ''12''\<rparr> \<and>
   styles (state_after (adjustStickyHeader decimal_host False
              \<lparr>type = Str ''sticky'', offset = Str ''12''\<rparr>
              (tick_at True 0 5 640 480) (hookUp no_styles))) StickyHeader ''top'' =
     Px (Finite 512)"
  using string_offset_nested_top [of decimal_host "hookUp no_styles"] decimal_reads
  by simp

lemma window_returns:
  "visible smp \<Longrightarrow> plus_js h (top (outer smp)) (resolve_offset hdr) = Inr b \<Longrightarrow>
   adjustStickyHeader h True hdr smp st = Inr (state_after (adjustStickyHeader h True hdr smp st))"
  by (simp add: adjustStickyHeader_def Let_def)

lemma calls_tick_window:
  "visible smp \<Longrightarrow> plus_js h (top (outer smp)) (resolve_offset hdr) = Inr b \<Longrightarrow>
   calls_of_tick st (state_after (adjustStickyHeader h True hdr smp st)) =
    (let sticky = num_less (Finite (top (rectContainer smp))) (added_num h b);
         filler = (StickyHeaderFiller,
                   [(''display'', if sticky then Kw ''block'' else Kw ''none''),
                    (''height'', if sticky then Px (Finite (stickyHeader_height smp)) else Unset)]);
         style = [(''position'', if sticky then Kw ''fixed'' else Kw ''static''),
                  (''top'', if sticky then added_css b else Unset),
                  (''left'', if sticky then Px (Finite (left (rectContainer smp))) else Unset)]
     in if resize smp st
        then [filler,
              (StickyHeader, [(''width'', Kw ''auto'')]),
              (Table, [(''width'', Kw ''auto'')]),
              (Table, [(''width'', Px (Finite (tableContainer_width smp)))]),
              (StickyHeader, style @ [(''width'', Px (Finite (tableContainer_width smp)))])]
        else [filler, (StickyHeader, style)])"
  by (simp add: adjustStickyHeader_def Let_def css_def calls_of_tick_def resize_def)

lemma writes_table:
  "visible smp \<Longrightarrow> plus_js h (top (outer smp)) (resolve_offset hdr) = Inr b \<Longrightarrow>
   writes Table ''width'' (calls_of_tick st (state_after (adjustStickyHeader h True hdr smp st)))
     \<longleftrightarrow> resize smp st"
  by (simp add: calls_tick_window Let_def writes_def)

lemma writes_header:
  "visible smp \<Longrightarrow> plus_js h (top (outer smp)) (resolve_offset hdr) = Inr b \<Longrightarrow>
   writes StickyHeader ''width''
     (calls_of_tick st (state_after (adjustStickyHeader h True hdr smp st))) \<longleftrightarrow> resize smp st"
  by (simp add: calls_tick_window Let_def writes_def)

lemma widths_resize:
  "visible smp \<Longrightarrow> plus_js h (top (outer smp)) (resolve_offset hdr) = Inr b \<Longrightarrow>
   resize smp st \<Longrightarrow>
    styles (state_after (adjustStickyHeader h True hdr smp st)) StickyHeader ''width'' =
      Px (Finite (tableContainer_width smp)) \<and>
    styles (state_after (adjustStickyHeader h True hdr smp st)) Table ''width'' =
      Px (Finite (tableContainer_width smp)) \<and>
    viewportSize (state_after (adjustStickyHeader h True hdr smp st)) =
      \<lparr>width = width (outer smp), height = height (outer smp)\<rparr>"
  by (simp add: adjustStickyHeader_def Let_def css_def resize_def)

lemma widths_keep:
  "visible smp \<Longrightarrow> plus_js h (top (outer smp)) (resolve_offset hdr) = Inr b \<Longrightarrow>
   \<not> resize smp st \<Longrightarrow>
    styles (state_after (adjustStickyHeader h True hdr smp st)) StickyHeader ''width'' =
      styles st StickyHeader ''width'' \<and>
    styles (state_after (adjustStickyHeader h True hdr smp st)) Table = styles st Table \<and>
    viewportSize (state_after (adjustStickyHeader h True hdr smp st)) = viewportSize st"
  by (simp add: adjustStickyHeader_def Let_def css_def resize_def)

text \<open>
  C7. On a tick with the window as viewport, whenever the offset can be made a primitive
  (as every number and string can, and the offset of every header the normaliser returned
  with the type \<open>sticky\<close>), the tick returns, and a width is written to the table and to
  the header exactly when the sampled size of the viewport differs from the stored one by
  at least 1 in width or in height. Then the measured width of the container is the width
  of both, and the sampled size is stored; otherwise the widths and the stored size stay.
\<close>

theorem sticky_width_resync:
  assumes "visible smp"
      and "\<not> isl (toPrimitive h HintNumber (resolve_offset hdr))"
  shows "adjustStickyHeader h True hdr smp st =
           Inr (state_after (adjustStickyHeader h True hdr smp st)) \<and>
         (writes Table ''width''
            (calls_of_tick st (state_after (adjustStickyHeader h True hdr smp st))) \<longleftrightarrow>
            \<bar>width (outer smp) - width (viewportSize st)\<bar> \<ge> 1 \<or>
            \<bar>height (outer smp) - height (viewportSize st)\<bar> \<ge> 1) \<and>
         (writes StickyHeader ''width''
            (calls_of_tick st (state_after (adjustStickyHeader h True hdr smp st))) \<longleftrightarrow>
            \<bar>width (outer smp) - width (viewportSize st)\<bar> \<ge> 1 \<or>
            \<bar>height (outer smp) - height (viewportSize st)\<bar> \<ge> 1) \<and>
         (resize smp st \<longrightarrow>
            styles (state_after (adjustStickyHeader h True hdr smp st)) StickyHeader ''width'' =
              Px (Finite (tableContainer_width smp)) \<and>
            styles (state_after (adjustStickyHeader h True hdr smp st)) Table ''width'' =
              Px (Finite (tableContainer_width smp)) \<and>
            viewportSize (state_after (adjustStickyHeader h True hdr smp st)) =
              \<lparr>width = width (outer smp), height = height (outer smp)\<rparr>) \<and>
         (\<not> resize smp st \<longrightarrow>
            styles (state_after (adjustStickyHeader h True hdr smp st)) StickyHeader ''width'' =
              styles st StickyHeader ''width'' \<and>
            styles (state_after (adjustStickyHeader h True hdr smp st)) Table ''width'' =
              styles st Table ''width'' \<and>
            viewportSize (state_after (adjustStickyHeader h True hdr smp st)) = viewportSize st)"
proof -
  obtain b where b: "plus_js h (top (outer smp)) (resolve_offset hdr) = Inr b"
    using converted_plus_returns [OF assms(2)] by blast
  note v = assms(1)
  have "adjustStickyHeader h True hdr smp st =
          Inr (state_after (adjustStickyHeader h True hdr smp st))"
    by (rule window_returns [OF v b])
  moreover have "writes Table ''width''
      (calls_of_tick st (state_after (adjustStickyHeader h True hdr smp st))) \<longleftrightarrow> resize smp st"
    by (rule writes_table [OF v b])
  moreover have "writes StickyHeader ''width''
      (calls_of_tick st (state_after (adjustStickyHeader h True hdr smp st))) \<longleftrightarrow> resize smp st"
    by (rule writes_header [OF v b])
  moreover have "resize smp st \<longrightarrow>
            styles (state_after (adjustStickyHeader h True hdr smp st)) StickyHeader ''width'' =
              Px (Finite (tableContainer_width smp)) \<and>
            styles (state_after (adjustStickyHeader h True hdr smp st)) Table ''width'' =
              Px (Finite (tableContainer_width smp)) \<and>
            viewportSize (state_after (adjustStickyHeader h True hdr smp st)) =
              \<lparr>width = width (outer smp), height = height (outer smp)\<rparr>"
    using widths_resize [OF v b] by blast
  moreover have "\<not> resize smp st \<longrightarrow>
            styles (state_after (adjustStickyHeader h True hdr smp st)) StickyHeader ''width'' =
              styles st StickyHeader ''width'' \<and>
            styles (state_after (adjustStickyHeader h True hdr smp st)) Table ''width'' =
              styles st Table ''width'' \<and>
            viewportSize (state_after (adjustStickyHeader h True hdr smp st)) = viewportSize st"
    using widths_keep [OF v b] by simp
  ultimately show ?thesis
    by (simp add: resize_def)
qed

theorem sticky_width_resync_witness:
  "visible (tick_at True 4 0 1024 768) \<and>
   normalizeHeaderConfig decimal_host (Num (Finite 10)) = Inr offset_10 \<and>
   \<not> isl (toPrimitive decimal_host HintNumber (resolve_offset offset_10)) \<and>
   resize (tick_at True 4 0 1024 768) (hookUp no_styles) \<and>
   writes Table ''width'' (calls_of_tick (hookUp no_styles) after_first_tick) \<and>
   styles after_first_tick StickyHeader ''width'' = Px (Finite 800) \<and>
   styles after_first_tick Table ''width'' = Px (Finite 800) \<and>
   \<not> resize (tick_at True 4 0 1024.5 768) after_first_tick \<and>
   \<not> writes Table ''width''
        (calls_of_tick after_first_tick
           (state_after (adjustStickyHeader decimal_host True offset_10
              (tick_at True 4 0 1024.5 768) after_first_tick))) \<and>
   styles (state_after (adjustStickyHeader decimal_host True offset_10
              (tick_at True 4 0 1024.5 768) after_first_tick)) Table ''width'' = Px (Finite 800)"
proof -
  have r: "resize (tick_at True 4 0 1024 768) (hookUp no_styles)"
    by (simp add: resize_def tick_at_def hookUp_def)
  have n: "normalizeHeaderConfig decimal_host (Num (Finite 10)) = Inr offset_10"
    by (rule normalise_10)
  have c: "\<not> isl (toPrimitive decimal_host HintNumber (resolve_offset offset_10))"
    by (simp add: resolve_offset_def offset_10_def)
  have v: "visible (tick_at True 4 0 1024 768)" "visible (tick_at True 4 0 1024.5 768)"
    by (simp_all add: tick_at_def)
  note first = sticky_width_resync [OF v(1) c, of "hookUp no_styles"]
  have size: "viewportSize after_first_tick = \<lparr>width = 1024, height = 768\<rparr>"
    using first r by (simp add: after_first_tick_def tick_at_def)
  have w: "styles after_first_tick StickyHeader ''width'' = Px (Finite 800)"
          "styles after_first_tick Table ''width'' = Px (Finite 800)"
    using first r by (simp_all add: after_first_tick_def tick_at_def)
  have wr: "writes Table ''width'' (calls_of_tick (hookUp no_styles) after_first_tick)"
    using first r by (simp add: after_first_tick_def resize_def)
  have nr: "\<not> resize (tick_at True 4 0 1024.5 768) after_first_tick"
    by (simp add: resize_def size tick_at_def)
  note second = sticky_width_resync [OF v(2) c, of after_first_tick]
  have nw: "\<not> writes Table ''width''
        (calls_of_tick after_first_tick
           (state_after (adjustStickyHeader decimal_host True offset_10
              (tick_at True 4 0 1024.5 768) after_first_tick)))"
    using second nr by (simp add: resize_def)
  have keep: "styles (state_after (adjustStickyHeader decimal_host True offset_10
              (tick_at True 4 0 1024.5 768) after_first_tick)) Table ''width'' = Px (Finite 800)"
    using second nr w by simp
  show ?thesis
    using r n c v wr w nr nw keep by simp
qed

text \<open>
  C9. A tick that finds the root element not visible returns at once and changes nothing:
  no style, no stored viewport size, and it makes no \<open>.css\<close> call.
\<close>

theorem sticky_invisible_noop:
  "\<not> visible smp \<Longrightarrow>
   adjustStickyHeader h isWindow hdr smp st = Inr st \<and>
   state_after (adjustStickyHeader h isWindow hdr smp st) = st \<and>
   calls_of_tick st (state_after (adjustStickyHeader h isWindow hdr smp st)) = []"
  by (simp add: adjustStickyHeader_def calls_of_tick_def)

theorem sticky_invisible_noop_witness:
  "\<not> visible (tick_at False 4 0 1280 1024) \<and>
   adjustStickyHeader decimal_host True offset_10 (tick_at False 4 0 1280 1024) after_first_tick =
     Inr after_first_tick \<and>
   viewportSize (state_after (adjustStickyHeader decimal_host True offset_10
       (tick_at False 4 0 1280 1024) after_first_tick)) = viewportSize after_first_tick \<and>
   adjustStickyHeader decimal_host False offset_10 (tick_at False 4 0 1280 1024) after_first_tick =
     Inr after_first_tick"
  using sticky_invisible_noop [of "tick_at False 4 0 1280 1024" decimal_host True offset_10 after_first_tick]
        sticky_invisible_noop [of "tick_at False 4 0 1280 1024" decimal_host False offset_10 after_first_tick]
  by (simp add: tick_at_def)

section \<open>The fixed header\<close>

text \<open>
  C3, as the source has it. After a redraw, whatever redraws came before, the width of the
  component is the width of the body table plus the width of the scrollbar (the client
  width of the container less that of the viewport) when that sum is not negative, and 0
  when it is; the width of the fixed header is the width of the body table.
\<close>

theorem fixed_widths_after_redraw:
  "el_width (redraws (smps @ [smp]) ws) =
     Some (max 0 (int (table_offsetWidth smp) +
                  (int (el_clientWidth smp) - int (viewport_clientWidth smp)))) \<and>
   fixed_header_width (redraws (smps @ [smp]) ws) = Some (int (table_offsetWidth smp))"
  by (simp add: redraws_def didRedraw_fixed_def Let_def width_set_def)

theorem fixed_widths_after_redraw_witness:
  "el_width (redraws [scrollbar_appears] no_widths) = Some 815 \<and>
   fixed_header_width (redraws [scrollbar_appears] no_widths) = Some 800"
  using fixed_widths_after_redraw [of "[]" scrollbar_appears no_widths]
  by (simp add: scrollbar_appears_def)

text \<open>
  C3 as it is worded fails where the root element has the client width 0, as an inline
  element has: the sum is negative and the width set is 0.
\<close>

theorem fixed_widths_after_redraw_counterexample:
  "el_width (redraws [inline_root] no_widths) = Some 0 \<and>
   int (table_offsetWidth inline_root) +
     (int (el_clientWidth inline_root) - int (viewport_clientWidth inline_root)) = - 185 \<and>
   el_width (redraws [inline_root] no_widths) \<noteq>
     Some (int (table_offsetWidth inline_root) +
       (int (el_clientWidth inline_root) - int (viewport_clientWidth inline_root)))"
  by (simp add: redraws_def didRedraw_fixed_def Let_def width_set_def inline_root_def)

section \<open>The index of a rendered element\<close>

lemma node_at_append:
  "node_at d (p @ q) = (case node_at d p of None \<Rightarrow> None | Some e \<Rightarrow> node_at e q)"
  by (induction d p rule: node_at.induct) auto

lemma tags_below_append:
  "tags_below d (p @ q) =
     tags_below d p @ (case node_at d p of None \<Rightarrow> [] | Some e \<Rightarrow> tags_below e q)"
  by (induction d p rule: tags_below.induct) auto

lemma tags_below_single: "node_at d [i] = Some e \<Longrightarrow> tags_below d [i] = [tag e]"
  by (cases d) (auto split: if_splits)

lemma tags_below_snoc:
  "node_at d (p @ [i]) = Some e \<Longrightarrow> tags_below d (p @ [i]) = tags_below d p @ [tag e]"
  by (auto simp: tags_below_append node_at_append tags_below_single split: option.splits)

lemma node_at_prefix: "node_at d (p @ q) = Some e \<Longrightarrow> \<exists>e'. node_at d p = Some e'"
  by (simp add: node_at_append split: option.splits)

text \<open>With a jQuery object as context the walk passes every node that is not the wanted tag.\<close>

lemma closest_climb:
  assumes "node_at d p = Some r"
      and "node_at r q \<noteq> None"
      and "sel \<notin> set (tags_below r q)"
  shows "closest sel (ContextJQuery cs) d (p @ q) = closest sel (ContextJQuery cs) d p"
  using assms(2,3)
proof (induction q rule: rev_induct)
  case Nil
  then show ?case by simp
next
  case (snoc i q)
  from snoc.prems(1) obtain e where ei: "node_at r (q @ [i]) = Some e" by auto
  then obtain e' where e': "node_at r q = Some e'"
    using node_at_prefix by blast
  have e: "node_at d (p @ q @ [i]) = Some e"
    using ei assms(1) by (simp add: node_at_append)
  have tb: "tags_below r (q @ [i]) = tags_below r q @ [tag e]"
    by (rule tags_below_snoc [OF ei])
  have ne: "tag e \<noteq> sel" and rest: "sel \<notin> set (tags_below r q)"
    using snoc.prems(2) tb by auto
  have step: "closest sel (ContextJQuery cs) d (p @ q @ [i]) =
              closest sel (ContextJQuery cs) d (p @ q)"
    using e ne by (subst closest.simps) (simp add: butlast_append)
  have "closest sel (ContextJQuery cs) d (p @ q) = closest sel (ContextJQuery cs) d p"
    using snoc.IH e' rest by simp
  with step show ?case by simp
qed

lemma closest_at:
  "node_at d p = Some e \<Longrightarrow> tag e = sel \<Longrightarrow> closest sel (ContextJQuery cs) d p = Some p"
  by (subst closest.simps) simp

text \<open>
  Wherever the node lies below the root of the list view, in the container or not, the
  nearest \<open>tr\<close> around it gives the result.
\<close>

lemma indexOfElement_nearest_row:
  assumes "node_at doc base = Some row" and "tag row = ''tr''"
      and "node_at row rest \<noteq> None" and "''tr'' \<notin> set (tags_below row rest)"
      and "strict_prefix (el lv) (base @ rest)"
  shows "indexOfElement doc lv (base @ rest) = Some (index base + indexFirst lv - 1)"
proof -
  have "node_at doc (base @ rest) = node_at row rest"
    using node_at_append [of doc base rest] assms(1) by simp
  then have f: "find_in doc (el lv) (base @ rest) = Some (base @ rest)"
    using assms(3,5) by (simp add: find_in_def)
  have "closest ''tr'' (ContextJQuery [container lv]) doc (base @ rest) =
        closest ''tr'' (ContextJQuery [container lv]) doc base"
    by (rule closest_climb [OF assms(1,3,4)])
  also have "\<dots> = Some base"
    by (rule closest_at [OF assms(1,2)])
  finally show ?thesis
    by (simp add: indexOfElement_def f)
qed

lemma indexOfElement_outside:
  "\<not> strict_prefix (el lv) node \<Longrightarrow> indexOfElement doc lv node = None"
  by (simp add: indexOfElement_def find_in_def)

text \<open>
  C8. A cell of the header row is below the root of the list view, outside the container
  and in no materialised row; the walk finds the header row, and the result is a number,
  not \<open>null\<close>.
\<close>

theorem header_cell_gets_index:
  "node_at page [0, 0, 0, 0, 0] = Some (Elem ''th'' []) \<and>
   \<not> prefix (container page_list) [0, 0, 0, 0, 0] \<and>
   indexOfElement page page_list [0, 0, 0, 0, 0] = Some 39"
  by (simp add: indexOfElement_def find_in_def index_def page_def page_list_def closest.simps)

text \<open>
  A cell of a materialised row gets the position of its row; a cell of a row of a table
  inside a materialised row gets the position of the inner row; the filler row gets a
  number; a row outside the grid gets \<open>null\<close>.
\<close>

lemma row_cell_gets_index: "indexOfElement page page_list [0, 0, 1, 1, 0, 0] = Some 40"
  by (simp add: indexOfElement_def find_in_def index_def page_def page_list_def closest.simps)

lemma nested_row_cell_gets_inner_index:
  "indexOfElement page page_list [0, 0, 1, 1, 0, 1, 0, 0, 0] = Some 39"
  by (simp add: indexOfElement_def find_in_def index_def page_def page_list_def closest.simps)

lemma filler_row_gets_index: "indexOfElement page page_list [0, 0, 1, 0] = Some 39"
  by (simp add: indexOfElement_def find_in_def index_def page_def page_list_def closest.simps)

lemma row_outside_grid_is_null: "indexOfElement page page_list [1, 0, 0, 0] = None"
  by (simp add: indexOfElement_def find_in_def page_list_def)

end
